theory Spec2Isabelle
  imports Main
begin

section \<open>Work modal: the record, its schema and the form\<close>

subsection \<open>Regular expressions as the URL rule uses them\<close>

text \<open>
  The URL rule of the schema is the unanchored pattern
  \<^verbatim>\<open>[-a-zA-Z0-9@:%._+~#=]{1,256}\.[a-zA-Z0-9()]{1,6}\b([-a-zA-Z0-9()@:%_+.~#?&//=]*)\<close>.
  It is a sequence of bounded repetitions of character classes and one word boundary, so
  a pattern is a list of such items. The matcher backtracks over every repetition count,
  which decides the same strings as the engine's greedy search.
\<close>

datatype rx_item = Rep "char \<Rightarrow> bool" nat "nat option" | WordBoundary

definition in_range :: "char \<Rightarrow> char \<Rightarrow> char \<Rightarrow> bool" where
  "in_range lo hi c = ((of_char lo :: nat) \<le> of_char c \<and> (of_char c :: nat) \<le> of_char hi)"

definition alnum :: "char \<Rightarrow> bool" where
  "alnum c = (in_range (CHR ''a'') (CHR ''z'') c \<or> in_range (CHR ''A'') (CHR ''Z'') c
              \<or> in_range (CHR ''0'') (CHR ''9'') c)"

definition word_char :: "char option \<Rightarrow> bool" where
  "word_char oc = (case oc of None \<Rightarrow> False | Some c \<Rightarrow> alnum c \<or> c = CHR ''_'')"

definition host_class :: "char \<Rightarrow> bool" where
  "host_class c = (c = CHR ''-'' \<or> alnum c \<or> c \<in> set ''@:%._+~#='')"

definition dot_class :: "char \<Rightarrow> bool" where
  "dot_class c = (c = CHR ''.'')"

definition tld_class :: "char \<Rightarrow> bool" where
  "tld_class c = (alnum c \<or> c \<in> set ''()'')"

definition tail_class :: "char \<Rightarrow> bool" where
  "tail_class c = (c = CHR ''-'' \<or> alnum c \<or> c \<in> set ''()@:%_+.~#?&//='')"

definition url_pattern :: "rx_item list" where
  "url_pattern =
     [Rep host_class 1 (Some 256), Rep dot_class 1 (Some 1), Rep tld_class 1 (Some 6),
      WordBoundary, Rep tail_class 0 None]"

fun next_char :: "string \<Rightarrow> char option" where
  "next_char [] = None"
| "next_char (x # xs) = Some x"

fun match_here :: "rx_item list \<Rightarrow> char option \<Rightarrow> string \<Rightarrow> bool" where
  "match_here [] prev s = True"
| "match_here (WordBoundary # r) prev s =
     (word_char prev \<noteq> word_char (next_char s) \<and> match_here r prev s)"
| "match_here (Rep c lo hi # r) prev s =
     ((lo = 0 \<and> match_here r prev s) \<or>
      (case s of [] \<Rightarrow> False
       | x # xs \<Rightarrow> hi \<noteq> Some 0 \<and> c x \<and>
           match_here (Rep c (lo - 1) (map_option (\<lambda>h. h - 1) hi) # r) (Some x) xs))"

fun search_from :: "rx_item list \<Rightarrow> char option \<Rightarrow> string \<Rightarrow> bool" where
  "search_from r prev [] = match_here r prev []"
| "search_from r prev (x # xs) = (match_here r prev (x # xs) \<or> search_from r (Some x) xs)"

definition regex_test :: "rx_item list \<Rightarrow> string \<Rightarrow> bool" where
  "regex_test r s = search_from r None s"

subsection \<open>The record and the schema\<close>

text \<open>
  The type \<^verbatim>\<open>WorkExperience\<close> is declared in a package outside the modal's file; its
  fields are taken from \<^verbatim>\<open>defaultState\<close> and from the keys of the schema. Every field
  of the default state is a string; the identifier is the one optional key.
\<close>

record work_date =
  start :: string
  end' :: string

record FormData =
  id' :: "string option"
  name :: string
  position :: string
  date :: work_date
  url :: string
  summary :: string

definition path :: string where
  "path = ''sections.work''"

definition defaultState :: FormData where
  "defaultState =
     \<lparr>id' = None, name = '''', position = '''',
      date = \<lparr>start = '''', end' = ''''\<rparr>, url = '''', summary = ''''\<rparr>"

text \<open>
  A string rule of the validation library: an undefined value passes unless the rule is
  required; a value on the allow list passes at once; the empty string is otherwise
  refused; then the pattern, if any, is tested.
\<close>

datatype joi_error = AnyRequired | StringEmpty | StringPatternName string

record joi_string =
  isRequired :: bool
  allowEmpty :: bool
  rulePattern :: "(rx_item list \<times> string) option"

definition Joi_string :: joi_string where
  "Joi_string = \<lparr>isRequired = False, allowEmpty = False, rulePattern = None\<rparr>"

definition required :: "joi_string \<Rightarrow> joi_string" where
  "required r = r\<lparr>isRequired := True\<rparr>"

definition allow_empty :: "joi_string \<Rightarrow> joi_string" where
  "allow_empty r = r\<lparr>allowEmpty := True\<rparr>"

definition pattern :: "rx_item list \<Rightarrow> string \<Rightarrow> joi_string \<Rightarrow> joi_string" where
  "pattern rx nm r = r\<lparr>rulePattern := Some (rx, nm)\<rparr>"

definition validate_string :: "joi_string \<Rightarrow> string option \<Rightarrow> joi_error list" where
  "validate_string r v =
     (case v of
        None \<Rightarrow> if isRequired r then [AnyRequired] else []
      | Some s \<Rightarrow>
          if s = [] then (if allowEmpty r then [] else [StringEmpty])
          else (case rulePattern r of
                  None \<Rightarrow> []
                | Some (rx, nm) \<Rightarrow> if regex_test rx s then [] else [StringPatternName nm]))"

definition at_key :: "string \<Rightarrow> joi_error list \<Rightarrow> (string \<times> joi_error) list" where
  "at_key k es = map (\<lambda>e. (k, e)) es"

definition schema :: "FormData \<Rightarrow> (string \<times> joi_error) list" where
  "schema v =
     at_key ''id'' (validate_string Joi_string (id' v)) @
     at_key ''name'' (validate_string (required Joi_string) (Some (name v))) @
     at_key ''position'' (validate_string (required Joi_string) (Some (position v))) @
     at_key ''date.start'' (validate_string (allow_empty Joi_string) (Some (start (date v)))) @
     at_key ''date.end'' (validate_string (allow_empty Joi_string) (Some (end' (date v)))) @
     at_key ''url''
       (validate_string (allow_empty (pattern url_pattern ''valid URL'' Joi_string))
          (Some (url v))) @
     at_key ''summary'' (validate_string (allow_empty Joi_string) (Some (summary v)))"

definition joiResolver :: "FormData \<Rightarrow> (string \<times> joi_error) list + FormData" where
  "joiResolver v = (let es = schema v in if es = [] then Inr v else Inl es)"

subsection \<open>The store\<close>

record modal_payload =
  item :: "FormData option"

record modal_state =
  isOpen :: bool
  payload :: "modal_payload option"

datatype action =
    AddItem string FormData
  | EditItem string FormData
  | SetModalState string modal_state

record 'r root_state =
  resume :: 'r
  modal :: "string \<Rightarrow> modal_state"

text \<open>
  Modelled from the spec: the store's slices (\<^verbatim>\<open>modalSlice\<close>, \<^verbatim>\<open>resumeSlice\<close>) are
  not among the sources. The spec gives the store interface as "dispatch modal open/closed
  state by modal key" and "dispatch addItem(path, value) / editItem(path, value)". Setting
  a modal state stores it under its key; what the resume slice does with an item action
  is the parameter \<open>rr\<close>.
\<close>

definition rootReducer ::
  "(action \<Rightarrow> 'r \<Rightarrow> 'r) \<Rightarrow> action \<Rightarrow> 'r root_state \<Rightarrow> 'r root_state" where
  "rootReducer rr a st =
     (case a of
        SetModalState k ms \<Rightarrow> st\<lparr>modal := (modal st)(k := ms)\<rparr>
      | _ \<Rightarrow> st\<lparr>resume := rr a (resume st)\<rparr>)"

subsection \<open>The form and the component\<close>

text \<open>
  The form library keeps the current values and the errors of the last validation;
  \<^verbatim>\<open>reset\<close> replaces the values and clears the errors. The component's state is the
  store, the form, and the list of actions it has dispatched so far.
\<close>

record form_state =
  formValues :: FormData
  formErrors :: "(string \<times> joi_error) list"

definition reset :: "FormData \<Rightarrow> form_state" where
  "reset v = \<lparr>formValues = v, formErrors = []\<rparr>"

record 'r world =
  store :: "'r root_state"
  form :: form_state
  dispatched :: "action list"

definition dispatch :: "(action \<Rightarrow> 'r \<Rightarrow> 'r) \<Rightarrow> action \<Rightarrow> 'r world \<Rightarrow> 'r world" where
  "dispatch rr a w = w\<lparr>store := rootReducer rr a (store w), dispatched := dispatched w @ [a]\<rparr>"

definition modalKey :: string where
  "modalKey = ''builder.'' @ path"

definition itemsPath :: string where
  "itemsPath = path @ ''.items''"

definition get_item :: "modal_payload option \<Rightarrow> FormData option" where
  "get_item p = (case p of None \<Rightarrow> None | Some q \<Rightarrow> item q)"

definition item_of :: "'r world \<Rightarrow> FormData option" where
  "item_of w = get_item (payload (modal (store w) modalKey))"

definition isEditMode :: "'r world \<Rightarrow> bool" where
  "isEditMode w = (item_of w \<noteq> None)"

definition handleClose :: "(action \<Rightarrow> 'r \<Rightarrow> 'r) \<Rightarrow> 'r world \<Rightarrow> 'r world" where
  "handleClose rr w =
     (dispatch rr (SetModalState modalKey \<lparr>isOpen = False, payload = None\<rparr>) w)
       \<lparr>form := reset defaultState\<rparr>"

definition onSubmit :: "(action \<Rightarrow> 'r \<Rightarrow> 'r) \<Rightarrow> FormData \<Rightarrow> 'r world \<Rightarrow> 'r world" where
  "onSubmit rr formData w =
     handleClose rr
       (if isEditMode w then dispatch rr (EditItem itemsPath formData) w
        else dispatch rr (AddItem itemsPath formData) w)"

text \<open>
  \<^verbatim>\<open>handleSubmit(onSubmit)\<close> of the form library runs the resolver on the current
  values; it calls \<^verbatim>\<open>onSubmit\<close> with them when the resolver reports no error, and
  otherwise only records the errors in the form.
\<close>

definition handleSubmit :: "(action \<Rightarrow> 'r \<Rightarrow> 'r) \<Rightarrow> 'r world \<Rightarrow> 'r world" where
  "handleSubmit rr w =
     (case joiResolver (formValues (form w)) of
        Inl es \<Rightarrow> w\<lparr>form := (form w)\<lparr>formErrors := es\<rparr>\<rparr>
      | Inr v \<Rightarrow> onSubmit rr v w)"

text \<open>
  The emptiness test of the utility library is true of null and of an object without
  keys. A record of the form always has its keys, so an item is empty only when it is
  null.
\<close>

definition isEmpty_item :: "FormData option \<Rightarrow> bool" where
  "isEmpty_item i = (case i of None \<Rightarrow> True | Some v \<Rightarrow> False)"

definition useEffect_reset :: "'r world \<Rightarrow> 'r world" where
  "useEffect_reset w =
     (if \<not> isEmpty_item (item_of w)
      then (case item_of w of Some v \<Rightarrow> w\<lparr>form := reset v\<rparr> | None \<Rightarrow> w)
      else w)"

subsection \<open>Field inputs\<close>

datatype field = Name | Position | DateStart | DateEnd | Url | Summary

fun getValue :: "field \<Rightarrow> FormData \<Rightarrow> string" where
  "getValue Name v = name v"
| "getValue Position v = position v"
| "getValue DateStart v = start (date v)"
| "getValue DateEnd v = end' (date v)"
| "getValue Url v = url v"
| "getValue Summary v = summary v"

fun setValue :: "field \<Rightarrow> string \<Rightarrow> FormData \<Rightarrow> FormData" where
  "setValue Name s v = v\<lparr>name := s\<rparr>"
| "setValue Position s v = v\<lparr>position := s\<rparr>"
| "setValue DateStart s v = v\<lparr>date := (date v)\<lparr>start := s\<rparr>\<rparr>"
| "setValue DateEnd s v = v\<lparr>date := (date v)\<lparr>end' := s\<rparr>\<rparr>"
| "setValue Url s v = v\<lparr>url := s\<rparr>"
| "setValue Summary s v = v\<lparr>summary := s\<rparr>"

definition field_onChange :: "field \<Rightarrow> string \<Rightarrow> form_state \<Rightarrow> form_state" where
  "field_onChange f s fs = fs\<lparr>formValues := setValue f s (formValues fs)\<rparr>"

text \<open>
  The date control hands its change handler a date object, which may be null, an invalid
  date, or a valid instant (milliseconds since the epoch), and the keyboard input, which
  may be undefined. The rendering of a valid instant by \<^verbatim>\<open>toISOString\<close> is a built-in of
  the language and is the parameter \<open>fmt\<close>; on a null or invalid date the built-in
  throws, which is \<open>None\<close> here.
\<close>

datatype js_date = NullDate | InvalidDate | ValidDate int

definition isEmpty_string :: "string option \<Rightarrow> bool" where
  "isEmpty_string k = (case k of None \<Rightarrow> True | Some s \<Rightarrow> s = [])"

definition dayjs_isValid :: "js_date \<Rightarrow> bool" where
  "dayjs_isValid d = (case d of ValidDate t \<Rightarrow> True | _ \<Rightarrow> False)"

definition toISOString :: "(int \<Rightarrow> string) \<Rightarrow> js_date \<Rightarrow> string option" where
  "toISOString fmt d = (case d of ValidDate t \<Rightarrow> Some (fmt t) | _ \<Rightarrow> None)"

definition datePicker_onChange ::
  "(int \<Rightarrow> string) \<Rightarrow> field \<Rightarrow> js_date \<Rightarrow> string option \<Rightarrow> form_state \<Rightarrow> form_state" where
  "datePicker_onChange fmt f d keyboardInputValue fs =
     (let fs1 = (if isEmpty_string keyboardInputValue then field_onChange f [] fs else fs)
      in if dayjs_isValid d
         then (case toISOString fmt d of Some s \<Rightarrow> field_onChange f s fs1 | None \<Rightarrow> fs1)
         else fs1)"

subsection \<open>Events of the modal\<close>

text \<open>
  The effect that copies the payload's item into the form runs after a render in which
  the item has changed. Other parts of the application open the modal by dispatching its
  state with an optional payload; the user types into the text fields, uses the two date
  controls, submits, or closes.
\<close>

datatype event =
    OpenModal "modal_payload option"
  | TextInput field string
  | DateInput field js_date "string option"
  | Submit
  | Close

definition rerender :: "'r world \<Rightarrow> 'r world \<Rightarrow> 'r world" where
  "rerender w w' = (if item_of w' = item_of w then w' else useEffect_reset w')"

fun step :: "(action \<Rightarrow> 'r \<Rightarrow> 'r) \<Rightarrow> (int \<Rightarrow> string) \<Rightarrow> event \<Rightarrow> 'r world \<Rightarrow> 'r world" where
  "step rr fmt (OpenModal p) w =
     rerender w (dispatch rr (SetModalState modalKey \<lparr>isOpen = True, payload = p\<rparr>) w)"
| "step rr fmt (TextInput f s) w = w\<lparr>form := field_onChange f s (form w)\<rparr>"
| "step rr fmt (DateInput f d k) w = w\<lparr>form := datePicker_onChange fmt f d k (form w)\<rparr>"
| "step rr fmt Submit w = rerender w (handleSubmit rr w)"
| "step rr fmt Close w = rerender w (handleClose rr w)"

text \<open>
  Modelled from the spec: the initial state of the modal slice and the modal shell
  (\<^verbatim>\<open>BaseModal\<close>) are not among the sources. The modal starts closed without a payload,
  and the form inside the shell takes input only while the modal is open; the text fields
  and the date controls are the ones the component renders.
\<close>

definition mount :: "'r \<Rightarrow> 'r world" where
  "mount r0 =
     \<lparr>store = \<lparr>resume = r0, modal = (\<lambda>k. \<lparr>isOpen = False, payload = None\<rparr>)\<rparr>,
      form = reset defaultState, dispatched = []\<rparr>"

definition modal_open :: "'r world \<Rightarrow> bool" where
  "modal_open w = isOpen (modal (store w) modalKey)"

fun enabled :: "event \<Rightarrow> 'r world \<Rightarrow> bool" where
  "enabled (OpenModal p) w = True"
| "enabled (TextInput f s) w = (modal_open w \<and> f \<in> {Name, Position, Url, Summary})"
| "enabled (DateInput f d k) w = (modal_open w \<and> f \<in> {DateStart, DateEnd})"
| "enabled Submit w = modal_open w"
| "enabled Close w = modal_open w"

inductive reachable :: "(action \<Rightarrow> 'r \<Rightarrow> 'r) \<Rightarrow> (int \<Rightarrow> string) \<Rightarrow> 'r world \<Rightarrow> bool"
  for rr :: "action \<Rightarrow> 'r \<Rightarrow> 'r" and fmt :: "int \<Rightarrow> string" where
  reachable_mount: "reachable rr fmt (mount r0)"
| reachable_step: "reachable rr fmt w \<Longrightarrow> enabled ev w \<Longrightarrow> reachable rr fmt (step rr fmt ev w)"

text \<open>
  The invariant of the reachable states: while the modal is closed, the form holds the
  default state and the payload has no item.
\<close>

definition closed_inv :: "'r world \<Rightarrow> bool" where
  "closed_inv w = (modal_open w \<or> (form w = reset defaultState \<and> item_of w = None))"

text \<open>
  Modelled from the spec: the code that opens the modal is not among the sources. By the
  spec the payload of an opening is an existing Record ("optional payload (existing
  Record)"), an existing Record is one whose identifier is present (the identifier
  distinguishes "new" (absent) from "existing" (present) records), and the modal is opened
  from its closed state. The events of the user are as before.
\<close>

fun enabled_existing :: "event \<Rightarrow> 'r world \<Rightarrow> bool" where
  "enabled_existing (OpenModal p) w =
     (\<not> modal_open w \<and> (case get_item p of None \<Rightarrow> True | Some v \<Rightarrow> id' v \<noteq> None))"
| "enabled_existing (TextInput f s) w = enabled (TextInput f s) w"
| "enabled_existing (DateInput f d k) w = enabled (DateInput f d k) w"
| "enabled_existing Submit w = enabled Submit w"
| "enabled_existing Close w = enabled Close w"

inductive reachable_existing ::
  "(action \<Rightarrow> 'r \<Rightarrow> 'r) \<Rightarrow> (int \<Rightarrow> string) \<Rightarrow> 'r world \<Rightarrow> bool"
  for rr :: "action \<Rightarrow> 'r \<Rightarrow> 'r" and fmt :: "int \<Rightarrow> string" where
  existing_mount: "reachable_existing rr fmt (mount r0)"
| existing_step:
    "reachable_existing rr fmt w \<Longrightarrow> enabled_existing ev w \<Longrightarrow>
       reachable_existing rr fmt (step rr fmt ev w)"

text \<open>
  In these states the form carries an identifier exactly when the payload carries an
  item.
\<close>

definition id_inv :: "'r world \<Rightarrow> bool" where
  "id_inv w = ((id' (formValues (form w)) \<noteq> None) = (item_of w \<noteq> None))"

subsection \<open>Sample inputs\<close>

text \<open>
  Concrete inputs for the statements below: a resume slice that ignores item actions, a
  fixed rendering of instants, the modal opened without a payload, the same with the two
  required fields typed in, and a stored item opened for editing.
\<close>

definition sample_reducer :: "action \<Rightarrow> unit \<Rightarrow> unit" where
  "sample_reducer a r = r"

definition sample_fmt :: "int \<Rightarrow> string" where
  "sample_fmt t = ''1970-01-01T00:00:00.000Z''"

definition blank_world :: "unit world" where
  "blank_world = step sample_reducer sample_fmt (OpenModal None) (mount ())"

definition filled_world :: "unit world" where
  "filled_world =
     step sample_reducer sample_fmt (TextInput Position ''Engineer'')
       (step sample_reducer sample_fmt (TextInput Name ''Acme'') blank_world)"

definition stored_item :: FormData where
  "stored_item =
     \<lparr>id' = Some ''w1'', name = ''Acme'', position = ''Engineer'',
      date = \<lparr>start = '''', end' = ''''\<rparr>, url = '''', summary = ''''\<rparr>"

definition edit_world :: "unit world" where
  "edit_world =
     step sample_reducer sample_fmt (OpenModal (Some \<lparr>item = Some stored_item\<rparr>)) (mount ())"

section \<open>Rich text input: the link form and the toolbar\<close>

text \<open>
  The editing engine is an external library: its document, marks, selection and history
  are not part of the sources. The component only calls it, so the engine is a parameter:
  a record of the calls the component makes. A chain of commands is the list of its
  commands, in the order the component writes them.
\<close>

datatype command =
    Focus
  | ExtendMarkRange string
  | UnsetLink
  | InsertContentAt nat nat string
  | SetTextSelection nat nat
  | SetLink string
  | InsertText string
  | Undo

record 'e editor_api =
  getAttributes_href :: "string \<Rightarrow> 'e \<Rightarrow> string option"
  selection :: "'e \<Rightarrow> nat \<times> nat"
  textBetween :: "'e \<Rightarrow> nat \<Rightarrow> nat \<Rightarrow> string \<Rightarrow> string"
  run :: "command list \<Rightarrow> 'e \<Rightarrow> 'e"
  can :: "command list \<Rightarrow> 'e \<Rightarrow> bool"

text \<open>
  An attribute that is absent is undefined; undefined and the empty string are the falsy
  values a string-valued attribute can take.
\<close>

definition truthy :: "string option \<Rightarrow> bool" where
  "truthy p = (case p of None \<Rightarrow> False | Some s \<Rightarrow> s \<noteq> [])"

definition or_else :: "string option \<Rightarrow> string \<Rightarrow> string" where
  "or_else p d = (case p of None \<Rightarrow> d | Some s \<Rightarrow> if s \<noteq> [] then s else d)"

record InsertLinkFormValues =
  linkUrl :: string
  displayText :: string

definition InsertLinkForm :: "'e editor_api \<Rightarrow> 'e \<Rightarrow> 'e \<times> InsertLinkFormValues" where
  "InsertLinkForm api editor =
     (let previousUrl = getAttributes_href api ''link'' editor;
          editor1 = (if truthy previousUrl then run api [ExtendMarkRange ''link''] editor
                     else editor);
          dt = textBetween api editor1 (fst (selection api editor1))
                   (snd (selection api editor1)) '' ''
      in (editor1, \<lparr>linkUrl = or_else previousUrl ''https://'', displayText = dt\<rparr>))"

definition setLink_chain :: "nat \<times> nat \<Rightarrow> string \<Rightarrow> string \<Rightarrow> command list" where
  "setLink_chain sel u t =
     (let from = fst sel; to = snd sel in
      if u = [] then [Focus, ExtendMarkRange ''link'', UnsetLink, InsertContentAt from to t]
      else if from = to then [Focus, ExtendMarkRange ''link'', SetLink u, InsertText t]
      else [InsertContentAt from to t, SetTextSelection from (from + length t),
            ExtendMarkRange ''link'', SetLink u, Focus])"




record button =
  disabled :: bool
  onClick :: "command list"

definition UndoButton :: "'e editor_api \<Rightarrow> 'e \<Rightarrow> button" where
  "UndoButton api editor = \<lparr>disabled = (\<not> can api [Undo] editor), onClick = [Focus, Undo]\<rparr>"

subsection \<open>The editor, modelled\<close>

text \<open>
  Modelled from the spec: the editing engine (its document, marks, selection, commands
  and history) is an external library, not among the sources. The model is one block of
  text whose characters carry at most one link mark each (the address of the link), a
  selection from one position to another, a link pending for the next typed text, and
  the history as the list of the documents that undo goes back to, the most recent first.
  The spec's words for the parts used below: the link form "pre-fills the URL field from
  any link" at the selection, "extending the edit to the link's full range", and
  "pre-fills display text from the currently selected text"; a button "is disabled if the
  corresponding command is not currently applicable, e.g. undo when there is no history
  to undo". The component's own comment reads the test of the link form as "the current
  selection contains a link". Which marks inserted text takes from its surroundings is
  not said anywhere; here it takes none, and no statement below depends on that.
\<close>

type_synonym cell = "char \<times> string option"

record flat_editor =
  doc :: "cell list"
  sel :: "nat \<times> nat"
  pending :: "string option"
  history :: "cell list list"

definition plain :: "string \<Rightarrow> cell list" where
  "plain s = map (\<lambda>c. (c, None)) s"

definition linked :: "string \<Rightarrow> string \<Rightarrow> cell list" where
  "linked h s = map (\<lambda>c. (c, Some h)) s"

definition selected_cells :: "flat_editor \<Rightarrow> cell list" where
  "selected_cells ed = take (snd (sel ed) - fst (sel ed)) (drop (fst (sel ed)) (doc ed))"

text \<open>
  The marks the selection shows: of a range, the marks of its characters; of a cursor, a
  pending link, or else the mark the characters on both sides of it share.
\<close>

definition cursor_marks :: "flat_editor \<Rightarrow> string option list" where
  "cursor_marks ed =
     (let p = fst (sel ed); d = doc ed in
      case pending ed of
        Some u \<Rightarrow> [Some u]
      | None \<Rightarrow>
          if 0 < p \<and> p < length d \<and> snd (d ! (p - 1)) = snd (d ! p) then [snd (d ! p)]
          else [])"

definition marks_in_selection :: "flat_editor \<Rightarrow> string option list" where
  "marks_in_selection ed =
     (if fst (sel ed) = snd (sel ed) then cursor_marks ed else map snd (selected_cells ed))"

fun find_link :: "string option list \<Rightarrow> string option" where
  "find_link [] = None"
| "find_link (None # ms) = find_link ms"
| "find_link (Some h # ms) = Some h"

definition flat_getAttributes_href :: "string \<Rightarrow> flat_editor \<Rightarrow> string option" where
  "flat_getAttributes_href m ed = (if m = ''link'' then find_link (marks_in_selection ed) else None)"




definition flat_textBetween :: "flat_editor \<Rightarrow> nat \<Rightarrow> nat \<Rightarrow> string \<Rightarrow> string" where
  "flat_textBetween ed a b sep = map fst (take (b - a) (drop a (doc ed)))"

definition mark_range :: "cell list \<Rightarrow> nat \<Rightarrow> (nat \<times> nat) option" where
  "mark_range d p =
     (if p < length d then
        (case snd (d ! p) of
           None \<Rightarrow> None
         | Some h \<Rightarrow>
             Some (p - length (takeWhile (\<lambda>c. snd c = Some h) (rev (take p d))),
                   p + length (takeWhile (\<lambda>c. snd c = Some h) (drop p d))))
      else None)"

definition set_link :: "string option \<Rightarrow> nat \<times> nat \<Rightarrow> cell list \<Rightarrow> cell list" where
  "set_link m r d =
     take (fst r) d @ map (\<lambda>c. (fst c, m)) (take (snd r - fst r) (drop (fst r) d)) @ drop (snd r) d"

text \<open>
  A command that changes the document leaves the former document in the history. A
  command that cannot run gives \<open>None\<close>; only undo can fail, when the history is empty.
\<close>

definition commit :: "cell list \<Rightarrow> flat_editor \<Rightarrow> flat_editor" where
  "commit d ed = (if d = doc ed then ed else ed\<lparr>doc := d, history := doc ed # history ed\<rparr>)"

fun exec :: "command \<Rightarrow> flat_editor \<Rightarrow> flat_editor option" where
  "exec Focus ed = Some ed"
| "exec (ExtendMarkRange m) ed =
     Some (if m = ''link'' then
             (case mark_range (doc ed) (fst (sel ed)) of
                None \<Rightarrow> ed
              | Some (a, b) \<Rightarrow>
                  if a \<le> fst (sel ed) \<and> snd (sel ed) \<le> b then ed\<lparr>sel := (a, b)\<rparr> else ed)
           else ed)"
| "exec UnsetLink ed = Some (commit (set_link None (sel ed) (doc ed)) ed)"
| "exec (InsertContentAt a b t) ed =
     Some ((commit (take a (doc ed) @ plain t @ drop b (doc ed)) ed)
             \<lparr>sel := (a + length t, a + length t)\<rparr>)"
| "exec (SetTextSelection a b) ed =
     Some (ed\<lparr>sel := (min a (length (doc ed)), min b (length (doc ed)))\<rparr>)"
| "exec (SetLink u) ed =
     Some (if fst (sel ed) = snd (sel ed) then ed\<lparr>pending := Some u\<rparr>
           else commit (set_link (Some u) (sel ed) (doc ed)) ed)"
| "exec (InsertText t) ed =
     Some ((commit (take (fst (sel ed)) (doc ed) @ map (\<lambda>c. (c, pending ed)) t @
                    drop (snd (sel ed)) (doc ed)) ed)
             \<lparr>sel := (fst (sel ed) + length t, fst (sel ed) + length t), pending := None\<rparr>)"
| "exec Undo ed =
     (case history ed of
        [] \<Rightarrow> None
      | h # hs \<Rightarrow>
          Some (ed\<lparr>doc := h, history := hs, pending := None,
                   sel := (min (fst (sel ed)) (length h), min (snd (sel ed)) (length h))\<rparr>))"

definition exec_or_skip :: "command \<Rightarrow> flat_editor \<Rightarrow> flat_editor" where
  "exec_or_skip c ed = (case exec c ed of None \<Rightarrow> ed | Some ed' \<Rightarrow> ed')"

definition flat_run :: "command list \<Rightarrow> flat_editor \<Rightarrow> flat_editor" where
  "flat_run cs ed = fold exec_or_skip cs ed"

fun flat_can :: "command list \<Rightarrow> flat_editor \<Rightarrow> bool" where
  "flat_can [] ed = True"
| "flat_can (c # cs) ed = (case exec c ed of None \<Rightarrow> False | Some ed' \<Rightarrow> flat_can cs ed')"

definition flat_api :: "flat_editor editor_api" where
  "flat_api =
     \<lparr>getAttributes_href = flat_getAttributes_href,
      selection = sel,
      textBetween = flat_textBetween,
      run = flat_run,
      can = flat_can\<rparr>"

text \<open>
  Sample editors: a fresh document with the word "Example" selected, and a document whose
  selection runs over plain text and a link.
\<close>

definition sample_editor :: flat_editor where
  "sample_editor =
     \<lparr>doc = plain ''See Example here'', sel = (4, 11), pending = None, history = []\<rparr>"


section \<open>Properties of the work modal\<close>

subsection \<open>What the schema accepts\<close>

lemma validate_string_plain: "validate_string Joi_string v = [] \<longleftrightarrow> v \<noteq> Some []"
  by (auto simp: validate_string_def Joi_string_def split: option.splits)

lemma validate_string_required:
  "validate_string (required Joi_string) (Some s) = [] \<longleftrightarrow> s \<noteq> []"
  by (auto simp: validate_string_def Joi_string_def required_def)

lemma validate_string_allow_empty: "validate_string (allow_empty Joi_string) (Some s) = []"
  by (auto simp: validate_string_def Joi_string_def allow_empty_def)

lemma validate_string_url:
  "validate_string (allow_empty (pattern rx nm Joi_string)) (Some s) = [] \<longleftrightarrow>
     s = [] \<or> regex_test rx s"
  by (auto simp: validate_string_def Joi_string_def allow_empty_def pattern_def)

lemma schema_passes_iff:
  "schema v = [] \<longleftrightarrow>
     id' v \<noteq> Some [] \<and> name v \<noteq> [] \<and> position v \<noteq> [] \<and>
     (url v = [] \<or> regex_test url_pattern (url v))"
  by (simp add: schema_def at_key_def validate_string_plain validate_string_required
      validate_string_allow_empty validate_string_url)

subsection \<open>Submitting and closing\<close>

lemma handleSubmit_invalid:
  "schema (formValues (form w)) \<noteq> [] \<Longrightarrow>
     handleSubmit rr w = w\<lparr>form := (form w)\<lparr>formErrors := schema (formValues (form w))\<rparr>\<rparr>"
  by (simp add: handleSubmit_def joiResolver_def Let_def)

lemma handleSubmit_valid:
  "schema (formValues (form w)) = [] \<Longrightarrow>
     handleSubmit rr w = onSubmit rr (formValues (form w)) w"
  by (simp add: handleSubmit_def joiResolver_def Let_def)

lemma dispatched_handleClose:
  "dispatched (handleClose rr w) =
     dispatched w @ [SetModalState modalKey \<lparr>isOpen = False, payload = None\<rparr>]"
  by (simp add: handleClose_def dispatch_def)

lemma dispatched_onSubmit:
  "dispatched (onSubmit rr v w) =
     dispatched w @
       [if isEditMode w then EditItem itemsPath v else AddItem itemsPath v,
        SetModalState modalKey \<lparr>isOpen = False, payload = None\<rparr>]"
  by (simp add: onSubmit_def dispatched_handleClose dispatch_def)

lemma store_handleClose:
  "store (handleClose rr w) =
     rootReducer rr (SetModalState modalKey \<lparr>isOpen = False, payload = None\<rparr>) (store w)"
  by (simp add: handleClose_def dispatch_def)

lemma modal_handleClose:
  "modal (store (handleClose rr w)) modalKey = \<lparr>isOpen = False, payload = None\<rparr>"
  by (simp add: store_handleClose rootReducer_def)

lemma form_handleClose: "form (handleClose rr w) = reset defaultState"
  by (simp add: handleClose_def)

lemma item_of_handleClose: "item_of (handleClose rr w) = None"
  by (simp add: item_of_def modal_handleClose get_item_def)

lemma useEffect_reset_None: "item_of w = None \<Longrightarrow> useEffect_reset w = w"
  by (simp add: useEffect_reset_def)

lemma rerender_None: "item_of w' = None \<Longrightarrow> rerender w w' = w'"
  by (simp add: rerender_def useEffect_reset_None)

lemma step_Close: "step rr fmt Close w = handleClose rr w"
  by (simp add: rerender_None item_of_handleClose)

lemma step_Submit_valid:
  "schema (formValues (form w)) = [] \<Longrightarrow>
     step rr fmt Submit w =
       handleClose rr
         (dispatch rr ((if isEditMode w then EditItem else AddItem) itemsPath (formValues (form w))) w)"
  by (simp add: handleSubmit_valid onSubmit_def rerender_None item_of_handleClose)

lemma step_Submit_invalid:
  "schema (formValues (form w)) \<noteq> [] \<Longrightarrow>
     step rr fmt Submit w = w\<lparr>form := (form w)\<lparr>formErrors := schema (formValues (form w))\<rparr>\<rparr>"
  by (simp add: handleSubmit_invalid rerender_def item_of_def)

subsection \<open>Opening\<close>

lemma item_of_open:
  "item_of (dispatch rr (SetModalState modalKey \<lparr>isOpen = True, payload = p\<rparr>) w) = get_item p"
  by (simp add: item_of_def dispatch_def rootReducer_def)

lemma form_dispatch: "form (dispatch rr a w) = form w"
  by (simp add: dispatch_def)

lemma step_Open_None:
  "item_of w = None \<Longrightarrow> get_item p = None \<Longrightarrow> form (step rr fmt (OpenModal p) w) = form w"
  by (simp add: rerender_None item_of_open form_dispatch)

lemma step_Open_Some:
  "item_of w = None \<Longrightarrow> get_item p = Some v \<Longrightarrow> form (step rr fmt (OpenModal p) w) = reset v"
  by (simp add: rerender_def item_of_open useEffect_reset_def isEmpty_item_def)

lemma store_useEffect_reset: "store (useEffect_reset w) = store w"
  by (simp add: useEffect_reset_def split: option.splits)

lemma store_rerender: "store (rerender w w') = store w'"
  by (simp add: rerender_def store_useEffect_reset)

lemma modal_open_step_Open: "modal_open (step rr fmt (OpenModal p) w)"
  by (simp add: modal_open_def store_rerender dispatch_def rootReducer_def)

subsection \<open>While the modal is closed, the form holds the defaults\<close>

lemma closed_inv_handleClose: "closed_inv (handleClose rr w)"
  by (simp add: closed_inv_def form_handleClose item_of_handleClose)

lemma closed_inv_step:
  assumes "closed_inv w" and "enabled ev w"
  shows "closed_inv (step rr fmt ev w)"
proof (cases ev)
  case (OpenModal p)
  then show ?thesis
    using modal_open_step_Open [of rr fmt p w] by (simp add: closed_inv_def)
next
  case (TextInput f s)
  then show ?thesis
    using assms by (simp add: closed_inv_def modal_open_def)
next
  case (DateInput f d k)
  then show ?thesis
    using assms by (simp add: closed_inv_def modal_open_def)
next
  case Submit
  show ?thesis
  proof (cases "schema (formValues (form w)) = []")
    case True
    then show ?thesis
      using Submit step_Submit_valid [of w rr fmt] closed_inv_handleClose by metis
  next
    case False
    then show ?thesis
      using Submit assms step_Submit_invalid [of w rr fmt]
      by (simp add: closed_inv_def modal_open_def del: step.simps)
  qed
next
  case Close
  then show ?thesis
    using step_Close [of rr fmt w] closed_inv_handleClose [of rr w] by simp
qed

lemma reachable_closed_inv: "reachable rr fmt w \<Longrightarrow> closed_inv w"
proof (induction rule: reachable.induct)
  case (reachable_mount r0)
  show ?case
    by (simp add: closed_inv_def mount_def item_of_def get_item_def)
next
  case (reachable_step w ev)
  then show ?case
    by (simp add: closed_inv_step del: step.simps)
qed

subsection \<open>The sample inputs, evaluated\<close>

lemmas world_eval =
  blank_world_def filled_world_def edit_world_def stored_item_def mount_def step.simps
  rerender_def useEffect_reset_def isEmpty_item_def item_of_def get_item_def dispatch_def
  rootReducer_def modalKey_def itemsPath_def path_def reset_def defaultState_def
  field_onChange_def setValue.simps

lemma schema_blank: "schema (formValues (form blank_world)) \<noteq> []"
  by (simp add: schema_passes_iff world_eval)

lemma schema_filled: "schema (formValues (form filled_world)) = []"
  by (simp add: schema_passes_iff world_eval)

lemma schema_edit: "schema (formValues (form edit_world)) = []"
  by (simp add: schema_passes_iff world_eval)

lemma form_edit: "formValues (form edit_world) = stored_item"
  by (simp add: world_eval)

lemma item_of_edit: "item_of edit_world = Some stored_item"
  by (simp add: world_eval)

lemma item_of_filled: "item_of filled_world = None"
  by (simp add: world_eval)

lemma modal_open_blank: "modal_open blank_world"
  by (simp add: modal_open_def world_eval)

lemma reachable_blank: "reachable sample_reducer sample_fmt blank_world"
  unfolding blank_world_def by (intro reachable_step reachable_mount) simp

lemma reachable_filled: "reachable sample_reducer sample_fmt filled_world"
  unfolding filled_world_def
  by (intro reachable_step reachable_blank) (simp_all add: modal_open_def world_eval)

lemma modal_open_filled: "modal_open filled_world"
  by (simp add: modal_open_def world_eval)

subsection \<open>The claims\<close>

text \<open>
  C1. A submission dispatches only when the submitted record passes the whole schema.
  When the schema reports an error for any field, the submit handler dispatches nothing
  and the store is unchanged. Conversely, whenever the handler has dispatched anything,
  the schema has passed: the name and the position are non-empty, the identifier is not
  the empty string, and the URL is empty or matches the URL pattern (the date fields and
  the summary are strings by their type and may be empty).
\<close>

theorem submit_gated_by_schema:
  "(schema (formValues (form w)) \<noteq> [] \<longrightarrow>
      store (handleSubmit rr w) = store w \<and> dispatched (handleSubmit rr w) = dispatched w) \<and>
   (dispatched (handleSubmit rr w) \<noteq> dispatched w \<longrightarrow>
      schema (formValues (form w)) = [] \<and>
      name (formValues (form w)) \<noteq> [] \<and> position (formValues (form w)) \<noteq> [] \<and>
      id' (formValues (form w)) \<noteq> Some [] \<and>
      (url (formValues (form w)) = [] \<or> regex_test url_pattern (url (formValues (form w)))))"
proof (cases "schema (formValues (form w)) = []")
  case True
  then show ?thesis
    using schema_passes_iff [of "formValues (form w)"] by simp
next
  case False
  then show ?thesis
    by (simp add: handleSubmit_invalid)
qed

theorem submit_gated_by_schema_witness:
  "schema (formValues (form blank_world)) \<noteq> [] \<and>
   store (handleSubmit sample_reducer blank_world) = store blank_world \<and>
   dispatched (handleSubmit sample_reducer blank_world) = dispatched blank_world \<and>
   dispatched (handleSubmit sample_reducer filled_world) \<noteq> dispatched filled_world \<and>
   schema (formValues (form filled_world)) = [] \<and>
   name (formValues (form filled_world)) = ''Acme''"
proof -
  have d: "dispatched (handleSubmit sample_reducer filled_world) \<noteq> dispatched filled_world"
    using schema_filled by (simp add: handleSubmit_valid dispatched_onSubmit)
  have n: "name (formValues (form filled_world)) = ''Acme''"
    by (simp add: world_eval)
  show ?thesis
    using schema_blank d n submit_gated_by_schema [of blank_world sample_reducer]
      submit_gated_by_schema [of filled_world sample_reducer]
    by blast
qed

lemma dispatched_handleSubmit_valid:
  "schema (formValues (form w)) = [] \<Longrightarrow>
     dispatched (handleSubmit rr w) =
       dispatched w @
         [(if item_of w \<noteq> None then EditItem else AddItem) itemsPath (formValues (form w)),
          SetModalState modalKey \<lparr>isOpen = False, payload = None\<rparr>]"
  by (simp add: handleSubmit_valid dispatched_onSubmit isEditMode_def)

lemma enabled_existing_enabled: "enabled_existing ev w \<Longrightarrow> enabled ev w"
  by (cases ev) simp_all

lemma reachable_existing_reachable: "reachable_existing rr fmt w \<Longrightarrow> reachable rr fmt w"
  by (induction rule: reachable_existing.induct)
     (auto intro: reachable.intros enabled_existing_enabled)

lemma id'_setValue: "id' (setValue f s v) = id' v"
  by (cases f) simp_all

lemma id'_datePicker_onChange:
  "id' (formValues (datePicker_onChange fmt f d k fs)) = id' (formValues fs)"
  by (simp add: datePicker_onChange_def field_onChange_def id'_setValue Let_def
      split: option.splits)

lemma id_inv_handleClose: "id_inv (handleClose rr w)"
  by (simp add: id_inv_def form_handleClose item_of_handleClose reset_def defaultState_def)

lemma id_inv_open:
  assumes "closed_inv w" and "enabled_existing (OpenModal p) w"
  shows "id_inv (step rr fmt (OpenModal p) w)"
proof -
  from assms have f: "form w = reset defaultState" and i: "item_of w = None"
    by (simp_all add: closed_inv_def)
  have o: "item_of (step rr fmt (OpenModal p) w) = get_item p"
    by (simp add: item_of_def store_rerender dispatch_def rootReducer_def)
  show ?thesis
  proof (cases "get_item p")
    case None
    then have "form (step rr fmt (OpenModal p) w) = form w"
      using i by (intro step_Open_None)
    then show ?thesis
      using None o f by (simp add: id_inv_def reset_def defaultState_def del: step.simps)
  next
    case (Some v)
    then have "form (step rr fmt (OpenModal p) w) = reset v"
      using i by (intro step_Open_Some)
    then show ?thesis
      using Some o assms(2) by (simp add: id_inv_def reset_def del: step.simps)
  qed
qed

lemma id_inv_step:
  assumes "id_inv w" and "closed_inv w" and "enabled_existing ev w"
  shows "id_inv (step rr fmt ev w)"
proof (cases ev)
  case (OpenModal p)
  then show ?thesis
    using assms id_inv_open [of w p rr fmt] by simp
next
  case (TextInput f s)
  then show ?thesis
    using assms(1) by (simp add: id_inv_def item_of_def field_onChange_def id'_setValue)
next
  case (DateInput f d k)
  then show ?thesis
    using assms(1) by (simp add: id_inv_def item_of_def id'_datePicker_onChange)
next
  case Submit
  show ?thesis
  proof (cases "schema (formValues (form w)) = []")
    case True
    then show ?thesis
      using Submit step_Submit_valid [of w rr fmt] id_inv_handleClose by metis
  next
    case False
    then show ?thesis
      using Submit assms(1) step_Submit_invalid [of w rr fmt]
      by (simp add: id_inv_def item_of_def del: step.simps)
  qed
next
  case Close
  then show ?thesis
    using step_Close [of rr fmt w] id_inv_handleClose [of rr w] by simp
qed

lemma reachable_existing_id_inv: "reachable_existing rr fmt w \<Longrightarrow> id_inv w"
proof (induction rule: reachable_existing.induct)
  case (existing_mount r0)
  show ?case
    by (simp add: id_inv_def mount_def item_of_def get_item_def reset_def defaultState_def)
next
  case (existing_step w ev)
  then show ?case
    using reachable_closed_inv [OF reachable_existing_reachable, of rr fmt w]
    by (simp add: id_inv_step del: step.simps)
qed

lemma reachable_existing_filled: "reachable_existing sample_reducer sample_fmt filled_world"
  unfolding filled_world_def blank_world_def
  by (intro existing_step existing_mount)
     (simp_all add: modal_open_def mount_def get_item_def dispatch_def rootReducer_def
        rerender_def useEffect_reset_def isEmpty_item_def item_of_def modalKey_def
        field_onChange_def)

lemma reachable_existing_edit: "reachable_existing sample_reducer sample_fmt edit_world"
  unfolding edit_world_def
  by (intro existing_step existing_mount)
     (simp_all add: modal_open_def mount_def get_item_def stored_item_def)

text \<open>
  C2. For every submitted record, that is, whenever the submit handler runs in a state
  the modal can reach when it is opened as the spec says (from closed, with an existing
  record as payload or with none) and the record passes the schema: the handler dispatches
  \<^verbatim>\<open>editItem\<close> when the record's identifier is present and \<^verbatim>\<open>addItem\<close> when it is absent.
  The component tests the payload's item (\<^verbatim>\<open>isEditMode\<close>); in these states the item is
  present exactly when the submitted record carries an identifier.
\<close>

theorem submit_branch_by_identifier:
  assumes "reachable_existing rr fmt w" and "schema (formValues (form w)) = []"
  shows "dispatched (handleSubmit rr w) =
           dispatched w @
             [(if id' (formValues (form w)) \<noteq> None then EditItem else AddItem)
                itemsPath (formValues (form w)),
              SetModalState modalKey \<lparr>isOpen = False, payload = None\<rparr>]"
proof -
  have "(id' (formValues (form w)) \<noteq> None) = (item_of w \<noteq> None)"
    using reachable_existing_id_inv [OF assms(1)] by (simp add: id_inv_def)
  then show ?thesis
    using dispatched_handleSubmit_valid [OF assms(2), of rr] by simp
qed

theorem submit_branch_by_identifier_witness:
  "reachable_existing sample_reducer sample_fmt edit_world \<and>
   schema (formValues (form edit_world)) = [] \<and>
   id' (formValues (form edit_world)) = Some ''w1'' \<and>
   dispatched (handleSubmit sample_reducer edit_world) =
     dispatched edit_world @
       [EditItem itemsPath (formValues (form edit_world)),
        SetModalState modalKey \<lparr>isOpen = False, payload = None\<rparr>] \<and>
   reachable_existing sample_reducer sample_fmt filled_world \<and>
   schema (formValues (form filled_world)) = [] \<and>
   id' (formValues (form filled_world)) = None \<and>
   dispatched (handleSubmit sample_reducer filled_world) =
     dispatched filled_world @
       [AddItem itemsPath (formValues (form filled_world)),
        SetModalState modalKey \<lparr>isOpen = False, payload = None\<rparr>]"
proof -
  have e: "id' (formValues (form edit_world)) = Some ''w1''"
    by (simp add: form_edit stored_item_def)
  have f: "id' (formValues (form filled_world)) = None"
    by (simp add: world_eval)
  show ?thesis
    using e f schema_edit schema_filled reachable_existing_edit reachable_existing_filled
      submit_branch_by_identifier [OF reachable_existing_edit schema_edit]
      submit_branch_by_identifier [OF reachable_existing_filled schema_filled]
    by simp
qed

text \<open>
  C3. Closing the modal resets the form to the default state (every field the empty
  string, no identifier, no errors), and dispatches the closed state of the modal, which
  the store then holds under the modal's key. Both ways of closing end in the same
  handler: the explicit close, and a submission that passes the schema. A subsequent
  opening without a payload shows the default values.
\<close>

theorem close_resets_form:
  "form (handleClose rr w) = reset defaultState \<and>
   formValues (reset defaultState) = defaultState \<and>
   dispatched (handleClose rr w) =
     dispatched w @ [SetModalState modalKey \<lparr>isOpen = False, payload = None\<rparr>] \<and>
   modal (store (handleClose rr w)) modalKey = \<lparr>isOpen = False, payload = None\<rparr> \<and>
   step rr fmt Close w = handleClose rr w \<and>
   (schema (formValues (form w)) = [] \<longrightarrow>
      step rr fmt Submit w =
        handleClose rr
          (dispatch rr
             ((if isEditMode w then EditItem else AddItem) itemsPath (formValues (form w))) w)) \<and>
   formValues (form (step rr fmt (OpenModal None) (handleClose rr w))) = defaultState"
proof -
  have "form (step rr fmt (OpenModal None) (handleClose rr w)) = form (handleClose rr w)"
    by (intro step_Open_None) (simp_all add: item_of_handleClose get_item_def)
  then have "formValues (form (step rr fmt (OpenModal None) (handleClose rr w))) = defaultState"
    by (simp add: form_handleClose reset_def)
  then show ?thesis
    using step_Close [of rr fmt w] step_Submit_valid [of w rr fmt]
    by (simp add: form_handleClose dispatched_handleClose modal_handleClose reset_def
        del: step.simps)
qed

theorem close_resets_form_witness:
  "schema (formValues (form filled_world)) = [] \<and>
   step sample_reducer sample_fmt Submit filled_world =
     handleClose sample_reducer
       (dispatch sample_reducer (AddItem itemsPath (formValues (form filled_world))) filled_world) \<and>
   form (step sample_reducer sample_fmt Submit filled_world) = reset defaultState"
proof -
  have a: "\<not> isEditMode filled_world"
    by (simp add: isEditMode_def item_of_filled)
  have s: "step sample_reducer sample_fmt Submit filled_world =
     handleClose sample_reducer
       (dispatch sample_reducer (AddItem itemsPath (formValues (form filled_world))) filled_world)"
    using a schema_filled close_resets_form [of sample_reducer filled_world sample_fmt]
    by (simp del: step.simps)
  have "form (handleClose sample_reducer
       (dispatch sample_reducer (AddItem itemsPath (formValues (form filled_world))) filled_world))
     = reset defaultState"
    by (rule form_handleClose)
  then show ?thesis
    using s schema_filled by (simp del: step.simps)
qed

text \<open>
  C4. From every state the modal can reach in which it is closed, opening it with a
  payload that carries an existing record makes the form's values equal to that record,
  and opening it without a payload leaves the form at the declared defaults.
\<close>

theorem open_populates_form:
  assumes "reachable rr fmt w" and "\<not> modal_open w"
  shows "formValues (form (step rr fmt (OpenModal (Some \<lparr>item = Some v\<rparr>)) w)) = v \<and>
         formValues (form (step rr fmt (OpenModal None) w)) = defaultState"
proof -
  from assms have f: "form w = reset defaultState" and i: "item_of w = None"
    using reachable_closed_inv [of rr fmt w] by (simp_all add: closed_inv_def)
  have "form (step rr fmt (OpenModal (Some \<lparr>item = Some v\<rparr>)) w) = reset v"
    using i by (intro step_Open_Some) (simp_all add: get_item_def)
  moreover have "form (step rr fmt (OpenModal None) w) = form w"
    using i by (intro step_Open_None) (simp_all add: get_item_def)
  ultimately show ?thesis
    using f by (simp add: reset_def)
qed

theorem open_populates_form_witness:
  "reachable sample_reducer sample_fmt (step sample_reducer sample_fmt Close filled_world) \<and>
   \<not> modal_open (step sample_reducer sample_fmt Close filled_world) \<and>
   formValues (form (step sample_reducer sample_fmt (OpenModal (Some \<lparr>item = Some stored_item\<rparr>))
      (step sample_reducer sample_fmt Close filled_world))) = stored_item \<and>
   formValues (form (step sample_reducer sample_fmt (OpenModal None)
      (step sample_reducer sample_fmt Close filled_world))) = defaultState"
proof -
  have r: "reachable sample_reducer sample_fmt (step sample_reducer sample_fmt Close filled_world)"
    using reachable_filled modal_open_filled by (intro reachable_step) simp_all
  have c: "\<not> modal_open (step sample_reducer sample_fmt Close filled_world)"
    by (simp add: step_Close modal_open_def modal_handleClose del: step.simps)
  show ?thesis
    using r c open_populates_form [OF r c, of stored_item] by blast
qed

text \<open>
  C5. For every field, in particular for both date fields, and every prior form state: a
  change event of the date control that carries an invalid date together with a non-empty
  keyboard input leaves the form as it was. Whatever the event, the value the control
  leaves in the field is its prior value, the empty string, or the rendering of the
  event's valid date by \<^verbatim>\<open>toISOString\<close>, which is an ISO-8601 instant.
\<close>

theorem date_change_commits:
  "(\<not> dayjs_isValid d \<and> k = Some s \<and> s \<noteq> [] \<longrightarrow> datePicker_onChange fmt f d k fs = fs) \<and>
   (getValue f (formValues (datePicker_onChange fmt f d k fs)) = getValue f (formValues fs) \<or>
    getValue f (formValues (datePicker_onChange fmt f d k fs)) = [] \<or>
    (\<exists>t. d = ValidDate t \<and> getValue f (formValues (datePicker_onChange fmt f d k fs)) = fmt t))"
proof -
  have get_set: "getValue f (setValue f x v) = x" for x v
    by (cases f) simp_all
  show ?thesis
    by (cases d)
       (auto simp: datePicker_onChange_def isEmpty_string_def dayjs_isValid_def toISOString_def
          field_onChange_def get_set)
qed

theorem date_change_commits_witness:
  "\<not> dayjs_isValid InvalidDate \<and>
   datePicker_onChange sample_fmt DateStart InvalidDate (Some ''31/02/2020'') (form edit_world) =
     form edit_world"
proof -
  have v: "\<not> dayjs_isValid InvalidDate"
    by (simp add: dayjs_isValid_def)
  show ?thesis
    using v date_change_commits
      [of InvalidDate "Some ''31/02/2020''" "''31/02/2020''" sample_fmt DateStart "form edit_world"]
    by simp
qed

text \<open>
  C6. There is a string without a URL scheme that the URL rule of the schema accepts: the
  string "example.com" contains no colon, hence no scheme, and the pattern rule reports no
  error for it.
\<close>

theorem url_rule_accepts_schemeless:
  "CHR '':'' \<notin> set ''example.com'' \<and>
   validate_string (allow_empty (pattern url_pattern ''valid URL'' Joi_string))
     (Some ''example.com'') = []"
  by (simp add: validate_string_def allow_empty_def pattern_def Joi_string_def regex_test_def
      url_pattern_def host_class_def dot_class_def tld_class_def tail_class_def alnum_def
      in_range_def word_char_def)

section \<open>Properties of the rich text input\<close>




subsection \<open>The history of the modelled editor\<close>

lemma history_commit: "history (commit d ed) = [] \<Longrightarrow> doc (commit d ed) = doc ed"
  by (simp add: commit_def split: if_splits)

lemma history_commit_mono: "history ed \<noteq> [] \<Longrightarrow> history (commit d ed) \<noteq> []"
  by (simp add: commit_def)

lemma exec_keeps_history:
  assumes "c \<noteq> Undo" and "history ed \<noteq> []"
  shows "history (exec_or_skip c ed) \<noteq> []"
  using assms by (cases c) (simp_all add: exec_or_skip_def history_commit_mono split: option.splits)

lemma exec_changes_doc:
  assumes "c \<noteq> Undo" and "history (exec_or_skip c ed) = []"
  shows "doc (exec_or_skip c ed) = doc ed"
  using assms
  by (cases c) (auto simp: exec_or_skip_def commit_def split: option.splits if_splits)

lemma run_changes_doc:
  "Undo \<notin> set cs \<Longrightarrow> history (flat_run cs ed) = [] \<Longrightarrow> doc (flat_run cs ed) = doc ed"
proof (induction cs arbitrary: ed)
  case Nil
  then show ?case by (simp add: flat_run_def)
next
  case (Cons c cs)
  then have c: "c \<noteq> Undo" and cs: "Undo \<notin> set cs"
    by auto
  have r: "flat_run (c # cs) ed = flat_run cs (exec_or_skip c ed)"
    by (simp add: flat_run_def)
  have keep: "history e \<noteq> [] \<Longrightarrow> history (flat_run cs e) \<noteq> []" for e
    using cs
  proof (induction cs arbitrary: e)
    case Nil
    then show ?case by (simp add: flat_run_def)
  next
    case (Cons a as)
    then have "history (exec_or_skip a e) \<noteq> []"
      using exec_keeps_history [of a e] by auto
    then show ?case
      using Cons by (simp add: flat_run_def)
  qed
  have h: "history (exec_or_skip c ed) = []"
    using Cons.prems(2) keep [of "exec_or_skip c ed"] r by auto
  have "doc (flat_run cs (exec_or_skip c ed)) = doc (exec_or_skip c ed)"
    using Cons.IH [OF cs] Cons.prems(2) r by simp
  then show ?case
    using exec_changes_doc [OF c h] r by simp
qed

lemma flat_can_Undo: "flat_can [Undo] ed \<longleftrightarrow> history ed \<noteq> []"
  by (simp split: list.splits)

lemma flat_run_Undo_empty: "history ed = [] \<Longrightarrow> flat_run [Focus, Undo] ed = ed"
  by (simp add: flat_run_def exec_or_skip_def)

lemma flat_run_Undo_some:
  "history ed = h # hs \<Longrightarrow>
     doc (flat_run [Focus, Undo] ed) = h \<and> history (flat_run [Focus, Undo] ed) = hs"
  by (simp add: flat_run_def exec_or_skip_def)

text \<open>
  C9. For every state of the modelled editor, the Undo button of the toolbar is disabled
  exactly when the history holds no document to go back to. The flag is computed from the
  state the toolbar is rendered from: with an empty history a click on the button changes
  nothing; with a document in the history a click goes back to the most recent one and
  takes it off the history; and after any chain without undo that has changed the
  document, the button rendered from the new state is enabled.
\<close>

theorem undo_disabled_iff_no_history:
  "(disabled (UndoButton flat_api ed) \<longleftrightarrow> history ed = []) \<and>
   (history ed = [] \<longrightarrow> run flat_api (onClick (UndoButton flat_api ed)) ed = ed) \<and>
   (\<forall>h hs. history ed = h # hs \<longrightarrow>
      doc (run flat_api (onClick (UndoButton flat_api ed)) ed) = h \<and>
      history (run flat_api (onClick (UndoButton flat_api ed)) ed) = hs) \<and>
   (Undo \<notin> set cs \<and> doc (run flat_api cs ed) \<noteq> doc ed \<longrightarrow>
      \<not> disabled (UndoButton flat_api (run flat_api cs ed)))"
proof -
  have a: "disabled (UndoButton flat_api e) \<longleftrightarrow> history e = []" for e
    using flat_can_Undo [of e] by (simp add: UndoButton_def flat_api_def)
  have b: "run flat_api (onClick (UndoButton flat_api ed)) ed = flat_run [Focus, Undo] ed"
    by (simp add: UndoButton_def flat_api_def)
  have c: "run flat_api cs ed = flat_run cs ed"
    by (simp add: flat_api_def)
  show ?thesis
    using a [of ed] a [of "flat_run cs ed"] b c flat_run_Undo_empty [of ed]
      flat_run_Undo_some [of ed] run_changes_doc [of cs ed]
    by auto
qed

lemmas editor_eval =
  flat_api_def flat_getAttributes_href_def marks_in_selection_def selected_cells_def
  cursor_marks_def flat_textBetween_def flat_run_def exec_or_skip_def mark_range_def
  set_link_def commit_def plain_def linked_def truthy_def or_else_def
  InsertLinkForm_def setLink_chain_def UndoButton_def Let_def

theorem undo_disabled_iff_no_history_witness:
  "history sample_editor = [] \<and>
   disabled (UndoButton flat_api sample_editor) \<and>
   run flat_api (onClick (UndoButton flat_api sample_editor)) sample_editor = sample_editor \<and>
   Undo \<notin> set (setLink_chain (4, 11) ''https://x.test'' ''Example'') \<and>
   doc (run flat_api (setLink_chain (4, 11) ''https://x.test'' ''Example'') sample_editor)
     \<noteq> doc sample_editor \<and>
   \<not> disabled (UndoButton flat_api
        (run flat_api (setLink_chain (4, 11) ''https://x.test'' ''Example'') sample_editor))"
proof -
  have h: "history sample_editor = []"
    by (simp add: sample_editor_def)
  have u: "Undo \<notin> set (setLink_chain (4, 11) ''https://x.test'' ''Example'')"
    by (simp add: setLink_chain_def)
  have d: "doc (run flat_api (setLink_chain (4, 11) ''https://x.test'' ''Example'') sample_editor)
             \<noteq> doc sample_editor"
    by (simp add: sample_editor_def editor_eval)
  show ?thesis
    using h u d
      undo_disabled_iff_no_history
        [of sample_editor "setLink_chain (4, 11) ''https://x.test'' ''Example''"]
    by blast
qed

subsection \<open>The defaults of the link form\<close>







end
